theory Spec2Isabelle
  imports Complex_Main "HOL-Library.AList"
begin

section \<open>Python values\<close>

text \<open>
  The script \<open>streamlit_app.py\<close> is dynamically typed: the payload it builds, the body an
  HTTP response decodes to and the value the gateway returns are all plain Python values.
  They are modelled by one datatype. A dictionary keeps its insertion order, so it is an
  association list with distinct keys. A string is a list of characters, each standing for
  a code point below 256.
\<close>

datatype py_value =
    PNone
  | PBool bool
  | PInt int
  | PStr string
  | PList "py_value list"
  | PDict "(string \<times> py_value) list"

text \<open>Python's truth value of an object, as used by \<open>if f\<close> and \<open>if a\<close>.\<close>

fun truthy :: "py_value \<Rightarrow> bool" where
  "truthy PNone = False"
| "truthy (PBool b) = b"
| "truthy (PInt n) = (n \<noteq> 0)"
| "truthy (PStr s) = (s \<noteq> [])"
| "truthy (PList xs) = (xs \<noteq> [])"
| "truthy (PDict kvs) = (kvs \<noteq> [])"

fun is_None :: "py_value \<Rightarrow> bool" where
  "is_None PNone = True"
| "is_None _ = False"

text \<open>The exceptions the script can raise by itself.\<close>

datatype py_error = TypeError | KeyError string

section \<open>Strings: \<open>str.split(" ")\<close> and \<open>str.strip()\<close>\<close>

text \<open>
  \<open>s.split(" ")\<close> cuts \<open>s\<close> at every single space character; two spaces in a row, or a
  space at either end, give an empty piece. The result is never the empty list.
\<close>

fun split_on :: "char \<Rightarrow> string \<Rightarrow> string list" where
  "split_on sep [] = [[]]"
| "split_on sep (c # cs) =
     (if c = sep then [] # split_on sep cs
      else (case split_on sep cs of
              [] \<Rightarrow> [[c]]
            | w # ws \<Rightarrow> (c # w) # ws))"

text \<open>
  \<open>str.isspace\<close> on the code points below 256: tab to carriage return, the four
  separators \<open>0x1c\<close> to \<open>0x1f\<close>, the space, \<open>0x85\<close> and \<open>0xa0\<close>.
\<close>

definition is_space :: "char \<Rightarrow> bool" where
  "is_space c =
     (let n = (of_char c :: nat)
      in (9 \<le> n \<and> n \<le> 13) \<or> (28 \<le> n \<and> n \<le> 32) \<or> n = 133 \<or> n = 160)"

definition strip :: "string \<Rightarrow> string" where
  "strip s = rev (dropWhile is_space (rev (dropWhile is_space s)))"

section \<open>Request builder\<close>

subsection \<open>\<open>reformat_filters\<close>\<close>

definition reformat_filters :: "string \<Rightarrow> py_value" where
  "reformat_filters filters =
     (if filters = [] \<or> length filters = 0 then PNone
      else PList (map (\<lambda>f. PStr (strip f)) (split_on CHR '' '' filters)))"

subsection \<open>The metrics table\<close>

text \<open>
  A cell of the \<open>value\<close> column is either a Python \<open>float\<close> (what pandas puts where
  \<open>metrics.json\<close> gives no value) or any other object; the script tells them apart by
  \<open>type(row["value"]) != float\<close>.
\<close>

datatype cell = FloatCell | ObjectCell py_value

record metric_row =
  row_name :: string
  row_selected :: bool
  row_value :: cell

text \<open>What \<open>for v in x\<close> runs through, or the \<open>TypeError\<close> it raises.\<close>

fun iterate :: "py_value \<Rightarrow> py_error + py_value list" where
  "iterate (PList xs) = Inr xs"
| "iterate (PStr s) = Inr (map (\<lambda>c. PStr [c]) s)"
| "iterate (PDict kvs) = Inr (map (\<lambda>kv. PStr (fst kv)) kvs)"
| "iterate _ = Inl TypeError"

text \<open>The inner loop: one \<open>append\<close> per aggregation kind.\<close>

fun append_aggs :: "string \<Rightarrow> py_value list \<Rightarrow> py_value list \<Rightarrow> py_value list" where
  "append_aggs n [] acc = acc"
| "append_aggs n (v # vs) acc =
     append_aggs n vs (acc @ [PDict [(''name'', PStr n), (''agg'', v)]])"

text \<open>The outer loop over the rows of the edited table, in table order.\<close>

fun metrics_loop :: "metric_row list \<Rightarrow> py_value list \<Rightarrow> py_error + py_value list" where
  "metrics_loop [] acc = Inr acc"
| "metrics_loop (row # rows) acc =
     (if row_selected row then
        (case row_value row of
           ObjectCell x \<Rightarrow>
             (case iterate x of
                Inl e \<Rightarrow> Inl e
              | Inr vs \<Rightarrow> metrics_loop rows (append_aggs (row_name row) vs acc))
         | FloatCell \<Rightarrow>
             metrics_loop rows (acc @ [PDict [(''name'', PStr (row_name row))]]))
      else metrics_loop rows acc)"

definition requested_metrics :: "metric_row list \<Rightarrow> py_error + py_value list" where
  "requested_metrics rows = metrics_loop rows []"

subsection \<open>Filters, aggregations and the payload\<close>

text \<open>A dictionary comprehension \<open>{n: x for n, x in zip(names, values) if x}\<close>.\<close>

definition dict_if_truthy :: "string list \<Rightarrow> py_value list \<Rightarrow> (string \<times> py_value) list" where
  "dict_if_truthy names vals = filter (\<lambda>nx. truthy (snd nx)) (zip names vals)"

definition filters ::
  "string \<Rightarrow> string \<Rightarrow> string \<Rightarrow> string \<Rightarrow> string \<Rightarrow> (string \<times> py_value) list" where
  "filters contributor_ids team_ids repository_ids service_ids labels =
     dict_if_truthy
       [''contributor_ids'', ''team_ids'', ''repository_ids'', ''service_ids'', ''labels'']
       [reformat_filters contributor_ids,
        reformat_filters team_ids,
        reformat_filters repository_ids,
        reformat_filters service_ids,
        reformat_filters labels]"

definition aggregations ::
  "string \<Rightarrow> string \<Rightarrow> int \<Rightarrow> string \<Rightarrow> (string \<times> py_value) list" where
  "aggregations group_by roll_up limit service_ids =
     dict_if_truthy
       [''group_by'', ''roll_up'', ''limit'', ''service_ids'']
       [PStr group_by, PStr roll_up, PInt limit, PStr service_ids]"

text \<open>
  A \<open>datetime.date\<close> and its \<open>strftime("%Y-%m-%d")\<close>. The year is written with four digits
  and the month and day with two; for a year below 1000 the padding of \<open>%Y\<close> depends on
  the platform, so the properties below are stated for years from 1000 to 9999.
\<close>

record date =
  year :: nat
  month :: nat
  day :: nat

definition digit :: "nat \<Rightarrow> char" where
  "digit n = ''0123456789'' ! n"

text \<open>The decimal digits of a natural number, as \<open>str\<close> and \<open>%d\<close> write them;
  \<open>digit\<close> is only ever applied to a number below ten.\<close>

fun str_nat :: "nat \<Rightarrow> string" where
  "str_nat n = (if n < 10 then [digit n] else str_nat (n div 10) @ [digit (n mod 10)])"

declare str_nat.simps [simp del]

definition str_int :: "int \<Rightarrow> string" where
  "str_int i = (if i < 0 then ''-'' @ str_nat (nat (- i)) else str_nat (nat i))"

definition zero_pad :: "nat \<Rightarrow> string \<Rightarrow> string" where
  "zero_pad w s = replicate (w - length s) CHR ''0'' @ s"

definition strftime_ymd :: "date \<Rightarrow> string" where
  "strftime_ymd d =
     zero_pad 4 (str_nat (year d)) @ ''-'' @ zero_pad 2 (str_nat (month d))
     @ ''-'' @ zero_pad 2 (str_nat (day d))"

text \<open>\<open>d.update(other)\<close>: each key of \<open>other\<close> is set in turn; a key already in \<open>d\<close> keeps
  its place and takes the new value, a new key goes to the end.\<close>

fun dict_update ::
  "(string \<times> py_value) list \<Rightarrow> (string \<times> py_value) list \<Rightarrow> (string \<times> py_value) list" where
  "dict_update d [] = d"
| "dict_update d (kv # kvs) = dict_update (AList.update (fst kv) (snd kv) d) kvs"

record form_input =
  contributor_ids :: string
  team_ids :: string
  repository_ids :: string
  service_ids :: string
  labels :: string
  group_by :: string
  roll_up :: string
  limit :: int
  before :: date
  after :: date

definition payload :: "py_value list \<Rightarrow> form_input \<Rightarrow> (string \<times> py_value) list" where
  "payload metrics inp =
     dict_update
       (dict_update
          [(''requested_metrics'', PList metrics),
           (''time_ranges'',
              PList [PDict [(''after'', PStr (strftime_ymd (after inp))),
                            (''before'', PStr (strftime_ymd (before inp)))]])]
          (filters (contributor_ids inp) (team_ids inp) (repository_ids inp)
             (service_ids inp) (labels inp)))
       (aggregations (group_by inp) (roll_up inp) (limit inp) (service_ids inp))"

section \<open>API gateway\<close>

text \<open>
  The exceptions that can arise inside the \<open>try\<close> block of \<open>make_linearb_request\<close>, by
  the \<open>except\<close> clause that catches them: a subclass of \<open>httpx.RequestError\<close> (with its
  class name and message), \<open>json.JSONDecodeError\<close> (with its message), or any other
  subclass of \<open>Exception\<close>. Interrupts of the interpreter are outside the model.
\<close>

datatype exn =
    RequestError string string
  | JSONDecodeError string
  | OtherException string string

fun is_RequestError :: "exn \<Rightarrow> bool" where
  "is_RequestError (RequestError c m) = True"
| "is_RequestError _ = False"

fun is_JSONDecodeError :: "exn \<Rightarrow> bool" where
  "is_JSONDecodeError (JSONDecodeError m) = True"
| "is_JSONDecodeError _ = False"

text \<open>\<open>e.__class__.__name__\<close> and \<open>str(e)\<close>.\<close>

fun class_name :: "exn \<Rightarrow> string" where
  "class_name (RequestError c m) = c"
| "class_name (JSONDecodeError m) = ''JSONDecodeError''"
| "class_name (OtherException c m) = c"

fun exn_str :: "exn \<Rightarrow> string" where
  "exn_str (RequestError c m) = m"
| "exn_str (JSONDecodeError m) = m"
| "exn_str (OtherException c m) = m"

text \<open>
  The arguments of \<open>httpx.request\<close>, and what the script reads from the response:
  \<open>status_code\<close>, \<open>content\<close> (the bytes of the body), \<open>text\<close> (the body decoded to a
  string) and the outcome of calling \<open>json()\<close>, a value or an exception.
\<close>

record http_request =
  req_method :: string
  req_url :: string
  req_headers :: "(string \<times> string) list"
  req_params :: "(string \<times> py_value) list option"
  req_json :: py_value
  req_timeout :: real

record http_response =
  resp_status_code :: int
  resp_content :: string
  resp_text :: string
  resp_json :: "exn + py_value"

definition LINEARB_API_BASE :: string where
  "LINEARB_API_BASE = ''https://public-api.linearb.io''"

definition ENDPOINT :: string where
  "ENDPOINT = ''/api/v2/measurements/export''"

text \<open>\<open>not api_token\<close>: the secret is \<open>None\<close> or the empty string.\<close>

fun token_missing :: "string option \<Rightarrow> bool" where
  "token_missing None = True"
| "token_missing (Some t) = (t = [])"

text \<open>The code from the headers to the \<open>try\<close>: the request that is handed to httpx.\<close>

definition build_request ::
  "string option \<Rightarrow> string \<Rightarrow> string \<Rightarrow> (string \<times> py_value) list option \<Rightarrow> py_value
     \<Rightarrow> real \<Rightarrow> http_request" where
  "build_request api_token method endpoint params json_data timeout =
     \<lparr>req_method = method,
      req_url = LINEARB_API_BASE @ endpoint,
      req_headers =
        [(''Content-Type'', ''application/json''),
         (''Accept'', ''application/json''),
         (''x-api-key'', (case api_token of Some t \<Rightarrow> t | None \<Rightarrow> []))],
      req_params =
        (case params of
           Some ps \<Rightarrow> if ps \<noteq> [] then Some (filter (\<lambda>kv. \<not> is_None (snd kv)) ps) else params
         | None \<Rightarrow> params),
      req_json =
        (case json_data of
           PDict kvs \<Rightarrow> PDict (filter (\<lambda>kv. \<not> is_None (snd kv)) kvs)
         | _ \<Rightarrow> json_data),
      req_timeout = timeout\<rparr>"

text \<open>The body of the \<open>try\<close> once the response is there, with its two inner \<open>try\<close> blocks.\<close>

definition classify_response :: "http_response \<Rightarrow> exn + py_value" where
  "classify_response response =
     (if 200 \<le> resp_status_code response \<and> resp_status_code response < 300 then
        (if resp_status_code response = 204 then
           Inr (PDict [(''message'', PStr ''Operation successful (No Content).''),
                       (''status_code'', PInt 204)])
         else
           (case (if resp_content response \<noteq> [] then resp_json response
                  else Inr (PDict
                    [(''message'', PStr (''Operation successful (Status: ''
                        @ str_int (resp_status_code response) @ '').'')),
                     (''status_code'', PInt (resp_status_code response))])) of
              Inr v \<Rightarrow> Inr v
            | Inl e \<Rightarrow>
                if is_JSONDecodeError e then
                  Inr (PDict [(''error'', PStr ''Failed to decode JSON response.''),
                              (''status_code'', PInt (resp_status_code response)),
                              (''response_text'', PStr (resp_text response))])
                else Inl e))
      else
        (case (case resp_json response of
                 Inr v \<Rightarrow> Inr v
               | Inl e \<Rightarrow> if is_JSONDecodeError e then Inr (PStr (resp_text response)) else Inl e) of
           Inl e \<Rightarrow> Inl e
         | Inr error_details \<Rightarrow>
             Inr (PDict [(''error'', PStr ''API request failed.''),
                         (''status_code'', PInt (resp_status_code response)),
                         (''details'', error_details)])))"

text \<open>The whole \<open>try\<close> block: the call of \<open>httpx.request\<close>, then the classification.\<close>

definition try_body :: "(http_request \<Rightarrow> exn + http_response) \<Rightarrow> http_request \<Rightarrow> exn + py_value" where
  "try_body net req =
     (case net req of
        Inl e \<Rightarrow> Inl e
      | Inr response \<Rightarrow> classify_response response)"

text \<open>The two outer \<open>except\<close> clauses, in their order.\<close>

definition except_clauses :: "exn + py_value \<Rightarrow> exn + py_value" where
  "except_clauses r =
     (case r of
        Inr v \<Rightarrow> Inr v
      | Inl e \<Rightarrow>
          if is_RequestError e then
            Inr (PDict [(''error'', PStr (''HTTP request error: '' @ class_name e)),
                        (''details'', PStr (exn_str e))])
          else
            Inr (PDict [(''error'', PStr (''An unexpected error occurred: '' @ class_name e)),
                        (''details'', PStr (exn_str e))]))"

text \<open>
  The gateway. The token is the module's global \<open>api_token\<close>; the network is a function
  from the request to what \<open>httpx.request\<close> does with it (a response, or an exception);
  the last argument and the second result are the requests issued so far. \<open>Inl\<close> in the
  first result is an exception that leaves the function.
\<close>

definition make_linearb_request ::
  "string option \<Rightarrow> (http_request \<Rightarrow> exn + http_response) \<Rightarrow> string \<Rightarrow> string
     \<Rightarrow> (string \<times> py_value) list option \<Rightarrow> py_value \<Rightarrow> real \<Rightarrow> http_request list
     \<Rightarrow> (exn + py_value) \<times> http_request list" where
  "make_linearb_request api_token net method endpoint params json_data timeout issued =
     (if token_missing api_token then
        (Inr (PDict [(''error'', PStr ''LinearB API Key is required.''),
                     (''status_code'', PInt 401)]), issued)
      else
        (let req = build_request api_token method endpoint params json_data timeout
         in (except_clauses (try_body net req), issued @ [req])))"

section \<open>Rendering the result\<close>

datatype ui_event = StError py_value | StLinkButton string py_value

fun starts_with :: "string \<Rightarrow> string \<Rightarrow> bool" where
  "starts_with s [] = True"
| "starts_with [] (p # ps) = False"
| "starts_with (c # cs) (p # ps) = (c = p \<and> starts_with cs ps)"

fun contains_str :: "string \<Rightarrow> string \<Rightarrow> bool" where
  "contains_str [] p = (p = [])"
| "contains_str (c # cs) p = (starts_with (c # cs) p \<or> contains_str cs p)"

fun is_PStr :: "string \<Rightarrow> py_value \<Rightarrow> bool" where
  "is_PStr k (PStr s) = (s = k)"
| "is_PStr k _ = False"

text \<open>\<open>k in x\<close> for a string \<open>k\<close>: a key of a dictionary, an element of a list, a
  substring of a string; anything else is not a container.\<close>

fun py_in :: "string \<Rightarrow> py_value \<Rightarrow> py_error + bool" where
  "py_in k (PDict kvs) = Inr (k \<in> set (map fst kvs))"
| "py_in k (PList xs) = Inr (list_ex (is_PStr k) xs)"
| "py_in k (PStr s) = Inr (contains_str s k)"
| "py_in k _ = Inl TypeError"

text \<open>\<open>x[k]\<close> for a string \<open>k\<close>.\<close>

fun subscript :: "py_value \<Rightarrow> string \<Rightarrow> py_error + py_value" where
  "subscript (PDict kvs) k = (case map_of kvs k of None \<Rightarrow> Inl (KeyError k) | Some v \<Rightarrow> Inr v)"
| "subscript _ k = Inl TypeError"

text \<open>
  The last lines of the script: the events shown to the user, and the exception that
  ends the run if there is one.
\<close>

definition render_response :: "py_value \<Rightarrow> ui_event list \<times> py_error option" where
  "render_response response =
     (case py_in ''error'' response of
        Inl e \<Rightarrow> ([], Some e)
      | Inr has_error \<Rightarrow>
          (case (if has_error then
                   (case subscript response ''error'' of
                      Inl e \<Rightarrow> Inl e
                    | Inr m \<Rightarrow> Inr [StError m])
                 else Inr []) of
             Inl e \<Rightarrow> ([], Some e)
           | Inr shown \<Rightarrow>
               (case subscript response ''report_url'' of
                  Inl e \<Rightarrow> (shown, Some e)
                | Inr url \<Rightarrow> (shown @ [StLinkButton ''Download data'' url], None))))"

section \<open>The properties, in the words of the specification\<close>

text \<open>
  What a row of the metrics table contributes to \<open>requested_metrics\<close> according to the
  specification: a selected row with a list of aggregation kinds gives one entry per kind,
  a selected row with a scalar gives one entry with the name alone, an unselected row
  gives nothing. A row of the specification's \<open>MetricRow\<close> type has a scalar (the float
  pandas puts for a missing value) or a list as its value.
\<close>

definition spec_row_entries :: "metric_row \<Rightarrow> py_value list" where
  "spec_row_entries row =
     (if row_selected row then
        (case row_value row of
           FloatCell \<Rightarrow> [PDict [(''name'', PStr (row_name row))]]
         | ObjectCell (PList kinds) \<Rightarrow>
             map (\<lambda>k. PDict [(''name'', PStr (row_name row)), (''agg'', k)]) kinds
         | ObjectCell _ \<Rightarrow> [])
      else [])"

definition spec_row_count :: "metric_row \<Rightarrow> nat" where
  "spec_row_count row =
     (if row_selected row then
        (case row_value row of
           FloatCell \<Rightarrow> 1
         | ObjectCell (PList kinds) \<Rightarrow> length kinds
         | ObjectCell _ \<Rightarrow> 0)
      else 0)"

definition is_metric_row :: "metric_row \<Rightarrow> bool" where
  "is_metric_row row =
     (case row_value row of
        FloatCell \<Rightarrow> True
      | ObjectCell (PList kinds) \<Rightarrow> True
      | ObjectCell _ \<Rightarrow> False)"

text \<open>A string of the shape \<open>YYYY-MM-DD\<close>, and the dates the date picker can give.\<close>

definition is_digit :: "char \<Rightarrow> bool" where
  "is_digit c = (c \<in> set ''0123456789'')"

definition is_ymd :: "string \<Rightarrow> bool" where
  "is_ymd s =
     (length s = 10 \<and> list_all is_digit (take 4 s) \<and> s ! 4 = CHR ''-''
      \<and> list_all is_digit (take 2 (drop 5 s)) \<and> s ! 7 = CHR ''-''
      \<and> list_all is_digit (drop 8 s))"

definition valid_date :: "date \<Rightarrow> bool" where
  "valid_date d =
     (1000 \<le> year d \<and> year d \<le> 9999 \<and> 1 \<le> month d \<and> month d \<le> 12
      \<and> 1 \<le> day d \<and> day d \<le> 31)"

text \<open>
  What a non-empty filter string is bound to: the pieces between single spaces, each
  stripped, empty pieces included.
\<close>

definition filter_binding :: "string \<Rightarrow> py_value option" where
  "filter_binding s =
     (if s = [] then None
      else Some (PList (map (\<lambda>f. PStr (strip f)) (split_on CHR '' '' s))))"

text \<open>\<open>sep.join(pieces)\<close>, to say what the pieces of \<open>split_on\<close> are.\<close>

fun join_on :: "char \<Rightarrow> string list \<Rightarrow> string" where
  "join_on sep [] = []"
| "join_on sep [w] = w"
| "join_on sep (w # v # ws) = w @ sep # join_on sep (v # ws)"

text \<open>The keys that come from the filters and from the aggregation options.\<close>

definition optional_keys :: "string list" where
  "optional_keys =
     [''contributor_ids'', ''team_ids'', ''repository_ids'', ''service_ids'', ''labels'',
      ''group_by'', ''roll_up'', ''limit'']"

text \<open>
  The form as it is before the user types anything (empty text inputs, the first option
  of each select box, the limit 1), with two dates; and the table of the specification's
  end-to-end scenario, with a scalar row and an unselected row of another shape added.
\<close>

definition blank_form :: form_input where
  "blank_form =
     \<lparr>contributor_ids = [], team_ids = [], repository_ids = [], service_ids = [],
      labels = [], group_by = ''contributor'', roll_up = ''1d'', limit = 1,
      before = \<lparr>year = 2024, month = 1, day = 31\<rparr>,
      after = \<lparr>year = 2024, month = 1, day = 1\<rparr>\<rparr>"

definition scenario_rows :: "metric_row list" where
  "scenario_rows =
     [\<lparr>row_name = ''cycle_time'', row_selected = True,
       row_value = ObjectCell (PList [PStr ''p75'', PStr ''avg''])\<rparr>,
      \<lparr>row_name = ''deploy_frequency'', row_selected = False,
       row_value = ObjectCell (PList [PStr ''avg''])\<rparr>,
      \<lparr>row_name = ''releases'', row_selected = True, row_value = FloatCell\<rparr>,
      \<lparr>row_name = ''unused'', row_selected = False, row_value = ObjectCell PNone\<rparr>]"

text \<open>
  Stand-ins for the network, and sample responses: one with a JSON body, one whose body
  is not JSON, one without a body, a 204, a 404 with a JSON body and a 500 with a text.
\<close>

definition net_returning :: "http_response \<Rightarrow> http_request \<Rightarrow> exn + http_response" where
  "net_returning r req = Inr r"

definition net_raising :: "exn \<Rightarrow> http_request \<Rightarrow> exn + http_response" where
  "net_raising e req = Inl e"




definition no_content_response :: http_response where
  "no_content_response =
     \<lparr>resp_status_code = 204,
      resp_content = ''stray'',
      resp_text = ''stray'',
      resp_json = Inl (JSONDecodeError ''Expecting value'')\<rparr>"



section \<open>Lemmas about the request builder\<close>

lemma split_on_not_Nil: "split_on sep s \<noteq> []"
  by (induction s) (auto split: list.splits)

lemma split_on_no_sep: "w \<in> set (split_on sep s) \<Longrightarrow> sep \<notin> set w"
  by (induction s arbitrary: w) (auto split: if_splits list.splits)

lemma split_on_length: "length (split_on sep s) = Suc (length (filter (\<lambda>c. c = sep) s))"
  by (induction s) (auto split: list.splits simp: split_on_not_Nil)

lemma join_split_on: "join_on sep (split_on sep s) = s"
proof (induction s)
  case Nil
  then show ?case by simp
next
  case (Cons c cs)
  obtain w ws where sp: "split_on sep cs = w # ws"
    using split_on_not_Nil [of sep cs] by (cases "split_on sep cs") auto
  show ?case
  proof (cases "c = sep")
    case True
    with Cons sp show ?thesis by simp
  next
    case False
    with Cons sp show ?thesis by (cases ws) auto
  qed
qed

lemma append_aggs_eq:
  "append_aggs n vs acc = acc @ map (\<lambda>k. PDict [(''name'', PStr n), (''agg'', k)]) vs"
  by (induction vs arbitrary: acc) auto

lemma metrics_loop_unselected:
  "\<not> row_selected row \<Longrightarrow>
     metrics_loop (row # rows) acc = metrics_loop rows (acc @ spec_row_entries row)"
  by (simp add: spec_row_entries_def)

lemma metrics_loop_selected:
  "row_selected row \<Longrightarrow> is_metric_row row \<Longrightarrow>
     metrics_loop (row # rows) acc = metrics_loop rows (acc @ spec_row_entries row)"
  by (auto simp: is_metric_row_def spec_row_entries_def append_aggs_eq
           split: cell.splits py_value.splits)

lemma metrics_loop_eq:
  "list_all is_metric_row (filter row_selected rows) \<Longrightarrow>
     metrics_loop rows acc = Inr (acc @ concat (map spec_row_entries rows))"
proof (induction rows arbitrary: acc)
  case Nil
  then show ?case by simp
next
  case (Cons row rows)
  have step: "metrics_loop (row # rows) acc = metrics_loop rows (acc @ spec_row_entries row)"
  proof (cases "row_selected row")
    case True
    with Cons.prems have "is_metric_row row" by simp
    with True show ?thesis by (rule metrics_loop_selected)
  next
    case False
    then show ?thesis by (rule metrics_loop_unselected)
  qed
  have tail: "list_all is_metric_row (filter row_selected rows)"
    using Cons.prems by (cases "row_selected row") simp_all
  have "metrics_loop rows (acc @ spec_row_entries row)
          = Inr ((acc @ spec_row_entries row) @ concat (map spec_row_entries rows))"
    using tail by (rule Cons.IH)
  with step show ?case by simp
qed

lemma length_spec_row_entries: "length (spec_row_entries row) = spec_row_count row"
  by (simp add: spec_row_entries_def spec_row_count_def split: cell.splits py_value.splits)

lemma length_concat_entries:
  "length (concat (map spec_row_entries rows)) = sum_list (map spec_row_count rows)"
  by (induction rows) (simp_all add: length_spec_row_entries)

lemma map_of_dict_update:
  "distinct (map fst kvs) \<Longrightarrow> map_of (dict_update d kvs) = map_of d ++ map_of kvs"
proof (induction kvs arbitrary: d)
  case Nil
  then show ?case by simp
next
  case (Cons kv kvs)
  then have "fst kv \<notin> dom (map_of kvs)" by (auto simp: dom_map_of_conv_image_fst)
  then have "map_of kvs (fst kv) = None" by blast
  with Cons show ?case
    by (cases kv) (auto simp: update_conv' fun_eq_iff map_add_def split: option.splits)
qed

lemma map_of_dict_if_truthy:
  "distinct names \<Longrightarrow> map_of (dict_if_truthy names vals) k =
     (case map_of (zip names vals) k of None \<Rightarrow> None | Some v \<Rightarrow> if truthy v then Some v else None)"
  unfolding dict_if_truthy_def
  by (induction names vals rule: list_induct2')
     (auto split: option.splits dest: map_of_SomeD set_zip_leftD)

lemma distinct_dict_if_truthy:
  "distinct names \<Longrightarrow> distinct (map fst (dict_if_truthy names vals))"
  unfolding dict_if_truthy_def
  by (induction names vals rule: list_induct2') (auto dest: set_zip_leftD)

lemma truthy_reformat_filters: "truthy (reformat_filters s) = (s \<noteq> [])"
  by (simp add: reformat_filters_def split_on_not_Nil)

lemma map_of_payload:
  "map_of (payload metrics inp) =
     map_of [(''requested_metrics'', PList metrics),
           (''time_ranges'',
              PList [PDict [(''after'', PStr (strftime_ymd (after inp))),
                            (''before'', PStr (strftime_ymd (before inp)))]])]
     ++ map_of (filters (contributor_ids inp) (team_ids inp) (repository_ids inp)
             (service_ids inp) (labels inp))
     ++ map_of (aggregations (group_by inp) (roll_up inp) (limit inp) (service_ids inp))"
  unfolding payload_def
  by (simp add: map_of_dict_update distinct_dict_if_truthy filters_def aggregations_def)

lemma map_of_filters:
  "map_of (filters c t r s l) k =
     (if k = ''contributor_ids'' then (if c = [] then None else Some (reformat_filters c))
      else if k = ''team_ids'' then (if t = [] then None else Some (reformat_filters t))
      else if k = ''repository_ids'' then (if r = [] then None else Some (reformat_filters r))
      else if k = ''service_ids'' then (if s = [] then None else Some (reformat_filters s))
      else if k = ''labels'' then (if l = [] then None else Some (reformat_filters l))
      else None)"
  by (simp add: filters_def map_of_dict_if_truthy truthy_reformat_filters)

lemma map_of_aggregations:
  "map_of (aggregations g r n s) k =
     (if k = ''group_by'' then (if g = [] then None else Some (PStr g))
      else if k = ''roll_up'' then (if r = [] then None else Some (PStr r))
      else if k = ''limit'' then (if n = 0 then None else Some (PInt n))
      else if k = ''service_ids'' then (if s = [] then None else Some (PStr s))
      else None)"
  by (simp add: aggregations_def map_of_dict_if_truthy)


lemma digit_chars:
  "digit 0 = CHR ''0''" "digit 1 = CHR ''1''" "digit 2 = CHR ''2''" "digit 3 = CHR ''3''"
  "digit 4 = CHR ''4''" "digit 5 = CHR ''5''" "digit 6 = CHR ''6''" "digit 7 = CHR ''7''"
  "digit 8 = CHR ''8''" "digit 9 = CHR ''9''" "digit (Suc 0) = CHR ''1''"
  by (simp_all add: digit_def)

lemma is_digit_digit: "n < 10 \<Longrightarrow> is_digit (digit n)"
proof -
  assume "n < 10"
  then have "n \<in> {0, 1, 2, 3, 4, 5, 6, 7, 8, 9}" by auto
  then show ?thesis by (auto simp: is_digit_def digit_chars simp del: One_nat_def)
qed

lemma str_nat_1: "n < 10 \<Longrightarrow> str_nat n = [digit n]"
  by (simp add: str_nat.simps)

lemma str_nat_2: "10 \<le> n \<Longrightarrow> n < 100 \<Longrightarrow> str_nat n = [digit (n div 10), digit (n mod 10)]"
  by (subst str_nat.simps) (simp add: str_nat_1)

lemma str_nat_3:
  "100 \<le> n \<Longrightarrow> n < 1000 \<Longrightarrow> str_nat n = [digit (n div 10 div 10), digit (n div 10 mod 10), digit (n mod 10)]"
  by (subst str_nat.simps) (simp add: str_nat_2)

lemma str_nat_4:
  "1000 \<le> n \<Longrightarrow> n < 10000 \<Longrightarrow>
     str_nat n = [digit (n div 10 div 10 div 10), digit (n div 10 div 10 mod 10), digit (n div 10 mod 10), digit (n mod 10)]"
  by (subst str_nat.simps) (simp add: str_nat_3)

lemma zero_pad_2: "n < 100 \<Longrightarrow> zero_pad 2 (str_nat n) = [digit (n div 10), digit (n mod 10)]"
  by (cases "n < 10") (simp_all add: zero_pad_def str_nat_1 str_nat_2 digit_chars)

lemma zero_pad_4:
  "1000 \<le> n \<Longrightarrow> n < 10000 \<Longrightarrow>
     zero_pad 4 (str_nat n) = [digit (n div 10 div 10 div 10), digit (n div 10 div 10 mod 10), digit (n div 10 mod 10), digit (n mod 10)]"
  by (simp add: zero_pad_def str_nat_4)

lemma is_ymd_strftime: "valid_date d \<Longrightarrow> is_ymd (strftime_ymd d)"
proof -
  assume v: "valid_date d"
  have y: "zero_pad 4 (str_nat (year d)) = [digit (year d div 10 div 10 div 10), digit (year d div 10 div 10 mod 10), digit (year d div 10 mod 10), digit (year d mod 10)]"
    using v by (intro zero_pad_4) (simp_all add: valid_date_def)
  have m: "zero_pad 2 (str_nat (month d)) = [digit (month d div 10), digit (month d mod 10)]"
    using v by (intro zero_pad_2) (simp add: valid_date_def)
  have dd: "zero_pad 2 (str_nat (day d)) = [digit (day d div 10), digit (day d mod 10)]"
    using v by (intro zero_pad_2) (simp add: valid_date_def)
  have "year d div 10 div 10 div 10 < 10" "month d div 10 < 10" "day d div 10 < 10"
    using v by (simp_all add: valid_date_def div_less_iff_less_mult)
  then show ?thesis
    unfolding strftime_ymd_def y m dd
    by (simp add: is_ymd_def is_digit_digit)
qed

lemma strftime_scenario:
  "strftime_ymd \<lparr>year = 2024, month = 1, day = 1\<rparr> = ''2024-01-01''"
  "strftime_ymd \<lparr>year = 2024, month = 1, day = 31\<rparr> = ''2024-01-31''"
  by (simp_all add: strftime_ymd_def zero_pad_2 zero_pad_4 digit_chars del: One_nat_def)

section \<open>Properties of the request builder\<close>

text \<open>
  C1 (as amended). For each of the five filter strings, the \<open>filters\<close> dictionary has no
  entry for the key when the string is empty, and otherwise binds the key to the list of
  the pieces of the string between single spaces, each piece stripped of surrounding
  whitespace and empty pieces kept; so the key is never bound to \<open>None\<close> or to an empty
  list, and a string of whitespace alone does get an entry. For \<open>contributor_ids\<close>,
  \<open>team_ids\<close>, \<open>repository_ids\<close> and \<open>labels\<close> the payload has the same binding.
\<close>

theorem filters_tokenization:
  "map_of (filters c t r s l) ''contributor_ids'' = filter_binding c
   \<and> map_of (filters c t r s l) ''team_ids'' = filter_binding t
   \<and> map_of (filters c t r s l) ''repository_ids'' = filter_binding r
   \<and> map_of (filters c t r s l) ''service_ids'' = filter_binding s
   \<and> map_of (filters c t r s l) ''labels'' = filter_binding l
   \<and> map_of (payload ms inp) ''contributor_ids'' = filter_binding (contributor_ids inp)
   \<and> map_of (payload ms inp) ''team_ids'' = filter_binding (team_ids inp)
   \<and> map_of (payload ms inp) ''repository_ids'' = filter_binding (repository_ids inp)
   \<and> map_of (payload ms inp) ''labels'' = filter_binding (labels inp)"
  by (simp add: map_of_payload map_of_filters map_of_aggregations map_add_def
        filter_binding_def reformat_filters_def)

text \<open>
  C1 as the specification states it fails: for the filter string made of one space the
  key is in the payload, bound to a list of two empty tokens.
\<close>

theorem whitespace_filter_counterexample:
  "map_of (payload [] (blank_form\<lparr>contributor_ids := '' ''\<rparr>)) ''contributor_ids''
     = Some (PList [PStr [], PStr []])"
  by (simp add: map_of_payload map_of_filters map_of_aggregations map_add_def
        blank_form_def reformat_filters_def strip_def is_space_def)

text \<open>
  C2. For a table whose selected rows have a scalar or a list as value (unselected rows
  may hold anything), \<open>requested_metrics\<close> returns the concatenation, in table order, of
  what the specification lets each row contribute, and its length is the sum of the rows'
  counts.
\<close>

theorem requested_metrics_expansion:
  assumes "list_all is_metric_row (filter row_selected rows)"
  shows "\<exists>ms. requested_metrics rows = Inr ms
           \<and> ms = concat (map spec_row_entries rows)
           \<and> length ms = sum_list (map spec_row_count rows)"
  using assms by (simp add: requested_metrics_def metrics_loop_eq length_concat_entries)

theorem requested_metrics_expansion_witness:
  "list_all is_metric_row (filter row_selected scenario_rows)
   \<and> requested_metrics scenario_rows
       = Inr [PDict [(''name'', PStr ''cycle_time''), (''agg'', PStr ''p75'')],
              PDict [(''name'', PStr ''cycle_time''), (''agg'', PStr ''avg'')],
              PDict [(''name'', PStr ''releases'')]]
   \<and> sum_list (map spec_row_count scenario_rows) = 3"
proof -
  have h: "list_all is_metric_row (filter row_selected scenario_rows)"
    by (simp add: scenario_rows_def is_metric_row_def)
  show ?thesis
    using h requested_metrics_expansion [OF h]
    by (auto simp: scenario_rows_def spec_row_entries_def spec_row_count_def)
qed

text \<open>
  C3 fails on the code: with the service ids \<open>s1 s2\<close> the payload binds \<open>service_ids\<close> to
  the string as typed, because \<open>aggregations\<close> holds the raw string under the same key and
  is merged after \<open>filters\<close>.
\<close>

theorem service_ids_raw_string:
  "map_of (payload [] (blank_form\<lparr>service_ids := ''s1 s2''\<rparr>)) ''service_ids''
     = Some (PStr ''s1 s2'')"
  by (simp add: map_of_payload map_of_filters map_of_aggregations map_add_def
        blank_form_def)

text \<open>
  C10. In the payload, every key of a filter or of an aggregation option that is present
  is bound to a truthy value; \<open>group_by\<close>, \<open>roll_up\<close> and \<open>service_ids\<close> are absent exactly
  when the input is empty; \<open>limit\<close> is absent when it is 0 and bound to the number
  otherwise; \<open>time_ranges\<close> is always there, with one entry whose \<open>after\<close> and \<open>before\<close>
  have the shape \<open>YYYY-MM-DD\<close>.
\<close>

theorem payload_truthy_keys:
  assumes "valid_date (after inp)" and "valid_date (before inp)"
  shows "(\<forall>k \<in> set optional_keys. \<forall>v. map_of (payload ms inp) k = Some v \<longrightarrow> truthy v)
    \<and> (map_of (payload ms inp) ''group_by'' = None) = (group_by inp = [])
    \<and> (map_of (payload ms inp) ''roll_up'' = None) = (roll_up inp = [])
    \<and> (map_of (payload ms inp) ''service_ids'' = None) = (service_ids inp = [])
    \<and> map_of (payload ms inp) ''limit'' = (if limit inp = 0 then None else Some (PInt (limit inp)))
    \<and> map_of (payload ms inp) ''time_ranges''
          = Some (PList [PDict [(''after'', PStr (strftime_ymd (after inp))),
                                (''before'', PStr (strftime_ymd (before inp)))]])
    \<and> is_ymd (strftime_ymd (after inp)) \<and> is_ymd (strftime_ymd (before inp))"
proof -
  have "truthy v" if "k \<in> set optional_keys" and "map_of (payload ms inp) k = Some v" for k v
    using that
    by (auto simp: optional_keys_def map_of_payload map_of_filters map_of_aggregations
          map_add_def truthy_reformat_filters split: if_splits)
  moreover have "(map_of (payload ms inp) ''group_by'' = None) = (group_by inp = [])"
    by (simp add: map_of_payload map_of_filters map_of_aggregations map_add_def)
  moreover have "(map_of (payload ms inp) ''roll_up'' = None) = (roll_up inp = [])"
    by (simp add: map_of_payload map_of_filters map_of_aggregations map_add_def)
  moreover have "(map_of (payload ms inp) ''service_ids'' = None) = (service_ids inp = [])"
    by (simp add: map_of_payload map_of_filters map_of_aggregations map_add_def)
  moreover have "map_of (payload ms inp) ''limit''
      = (if limit inp = 0 then None else Some (PInt (limit inp)))"
    by (simp add: map_of_payload map_of_filters map_of_aggregations map_add_def)
  moreover have "map_of (payload ms inp) ''time_ranges''
          = Some (PList [PDict [(''after'', PStr (strftime_ymd (after inp))),
                                (''before'', PStr (strftime_ymd (before inp)))]])"
    by (simp add: map_of_payload map_of_filters map_of_aggregations map_add_def)
  ultimately show ?thesis
    using assms by (simp add: is_ymd_strftime)
qed

theorem payload_truthy_keys_witness:
  "valid_date (after (blank_form\<lparr>limit := 5\<rparr>))
   \<and> valid_date (before (blank_form\<lparr>limit := 5\<rparr>))
   \<and> map_of (payload [] (blank_form\<lparr>limit := 5\<rparr>)) ''limit'' = Some (PInt 5)
   \<and> map_of (payload [] (blank_form\<lparr>limit := 5\<rparr>)) ''time_ranges''
       = Some (PList [PDict [(''after'', PStr ''2024-01-01''),
                             (''before'', PStr ''2024-01-31'')]])
   \<and> is_ymd ''2024-01-01'' \<and> is_ymd ''2024-01-31''"
proof -
  have a: "valid_date (after (blank_form\<lparr>limit := 5\<rparr>))"
    by (simp add: blank_form_def valid_date_def)
  have b: "valid_date (before (blank_form\<lparr>limit := 5\<rparr>))"
    by (simp add: blank_form_def valid_date_def)
  show ?thesis
    using a b payload_truthy_keys [OF a b, of "[]"]
    by (simp add: blank_form_def strftime_scenario del: One_nat_def)
qed

section \<open>Lemmas about the gateway\<close>

lemma except_clauses_Inr: "\<exists>v. except_clauses r = Inr v"
  by (cases r) (simp_all add: except_clauses_def)

lemma gateway_with_token:
  "\<not> token_missing tok \<Longrightarrow>
     fst (make_linearb_request tok net m e ps j t issued)
       = except_clauses (try_body net (build_request tok m e ps j t))"
  by (simp add: make_linearb_request_def Let_def)

lemma gateway_on_response:
  "\<not> token_missing tok \<Longrightarrow> net (build_request tok m e ps j t) = Inr r \<Longrightarrow>
     fst (make_linearb_request tok net m e ps j t issued) = except_clauses (classify_response r)"
  by (simp add: gateway_with_token try_body_def)


section \<open>Properties of the gateway and of the rendering\<close>

text \<open>
  C4 fails on the code: for the result the gateway gives without a credential, the last
  lines of the script show the error and then still read \<open>response['report_url']\<close>, which
  raises \<open>KeyError\<close>.
\<close>

theorem error_result_dereferences_report_url:
  "render_response (PDict [(''error'', PStr ''LinearB API Key is required.''),
                           (''status_code'', PInt 401)])
     = ([StError (PStr ''LinearB API Key is required.'')], Some (KeyError ''report_url''))"
  by (simp add: render_response_def)

text \<open>
  C5. Every call of the gateway returns a value and lets no exception out. An exception
  that leaves the \<open>try\<close> block, in particular one that \<open>httpx.request\<close> raises, becomes
  a dictionary with the class name in \<open>error\<close> and the message in \<open>details\<close>: the
  transport form for a subclass of \<open>httpx.RequestError\<close>, the unexpected form for any
  other exception.
\<close>

theorem gateway_total:
  "(\<exists>v. fst (make_linearb_request tok net m e ps j t issued) = Inr v)
   \<and> (\<not> token_missing tok \<longrightarrow> try_body net (build_request tok m e ps j t) = Inl x \<longrightarrow>
        fst (make_linearb_request tok net m e ps j t issued)
          = Inr (PDict [(''error'',
                          PStr ((if is_RequestError x then ''HTTP request error: ''
                                 else ''An unexpected error occurred: '') @ class_name x)),
                        (''details'', PStr (exn_str x))]))
   \<and> (net (build_request tok m e ps j t) = Inl x \<longrightarrow>
        try_body net (build_request tok m e ps j t) = Inl x)"
proof -
  have "\<exists>v. fst (make_linearb_request tok net m e ps j t issued) = Inr v"
    using except_clauses_Inr [of "try_body net (build_request tok m e ps j t)"]
    by (cases "token_missing tok") (simp_all add: make_linearb_request_def Let_def)
  then show ?thesis
    by (simp add: gateway_with_token except_clauses_def try_body_def)
qed

theorem gateway_total_witness:
  "\<not> token_missing (Some ''key'')
   \<and> try_body (net_raising (RequestError ''ConnectTimeout'' ''timed out''))
        (build_request (Some ''key'') ''POST'' ENDPOINT None PNone 30)
       = Inl (RequestError ''ConnectTimeout'' ''timed out'')
   \<and> fst (make_linearb_request (Some ''key'')
            (net_raising (RequestError ''ConnectTimeout'' ''timed out''))
            ''POST'' ENDPOINT None PNone 30 [])
       = Inr (PDict [(''error'', PStr ''HTTP request error: ConnectTimeout''),
                     (''details'', PStr ''timed out'')])"
  using gateway_total [of "Some ''key''" "net_raising (RequestError ''ConnectTimeout'' ''timed out'')"
      "''POST''" ENDPOINT None PNone 30 "[]" "RequestError ''ConnectTimeout'' ''timed out''"]
  by (simp add: try_body_def net_raising_def)

text \<open>
  C6. Without a credential (\<open>None\<close> or the empty string) the gateway returns the error
  with status code 401 and issues no request.
\<close>

theorem missing_credential_no_io:
  assumes "tok = None \<or> tok = Some []"
  shows "make_linearb_request tok net m e ps j t issued
           = (Inr (PDict [(''error'', PStr ''LinearB API Key is required.''),
                          (''status_code'', PInt 401)]), issued)"
  using assms by (auto simp: make_linearb_request_def)

theorem missing_credential_no_io_witness:
  "(Some [] = (None :: string option) \<or> Some [] = Some ([] :: string))
   \<and> make_linearb_request (Some []) (net_raising (OtherException ''X'' ''y''))
        ''POST'' ENDPOINT None PNone 30 []
       = (Inr (PDict [(''error'', PStr ''LinearB API Key is required.''),
                      (''status_code'', PInt 401)]), [])"
  using missing_credential_no_io [of "Some []" "net_raising (OtherException ''X'' ''y'')"
      "''POST''" ENDPOINT None PNone 30 "[]"]
  by simp



text \<open>
  C8. For a response with status 204 the gateway returns the no-content message, whatever
  the body is and whatever \<open>json()\<close> would do with it.
\<close>

theorem no_content_204:
  assumes "\<not> token_missing tok"
    and "net (build_request tok m e ps j t) = Inr r"
    and "resp_status_code r = 204"
  shows "fst (make_linearb_request tok net m e ps j t issued)
           = Inr (PDict [(''message'', PStr ''Operation successful (No Content).''),
                         (''status_code'', PInt 204)])"
  using assms
  by (simp add: gateway_on_response classify_response_def except_clauses_def)

theorem no_content_204_witness:
  "\<not> token_missing (Some ''key'')
   \<and> resp_status_code no_content_response = 204
   \<and> fst (make_linearb_request (Some ''key'') (net_returning no_content_response)
            ''POST'' ENDPOINT None PNone 30 [])
       = Inr (PDict [(''message'', PStr ''Operation successful (No Content).''),
                     (''status_code'', PInt 204)])"
  using no_content_204
          [where tok = "Some ''key''" and net = "net_returning no_content_response"
             and m = "''POST''" and e = ENDPOINT and ps = None and j = PNone and t = 30
             and r = no_content_response and issued = "[]"]
  by (simp add: net_returning_def no_content_response_def)



end
